theory Spec2Isabelle
  imports Complex_Main
begin

section \<open>Data model of \<^verbatim>\<open>qutip/core/data/make.py\<close>\<close>

text \<open>
  Shapes and positions are Python tuples of two unbounded integers; values are
  Python complex numbers (read as exact complex numbers).  The arrays the
  constructors create are heap objects: a buffer lives at an address of an
  explicit store, a matrix object holds addresses, and allocating appends a
  buffer to the store.  So what a call allocates, and which buffers its
  result refers to, can be read off the store it returns.
\<close>

type_synonym shape = "int \<times> int"
type_synonym position = "int \<times> int"
type_synonym addr = nat

text \<open>The output classes, as the keys the dispatchers are specialised on.\<close>

datatype dtype = COO_t | CSR_t | Dense_t | Dia_t

text \<open>
  \<^verbatim>\<open>OutOfBoundsError(shape, position)\<close> is the exception class of the module (its
  message is formatted from both arguments).  \<open>IndexError\<close> and \<open>ValueError\<close> are
  what an array access out of range and an array of negative size raise;
  \<open>UnsupportedRepresentation\<close> is the dispatcher's error.
\<close>

datatype error =
    OutOfBoundsError shape position
  | IndexError
  | ValueError
  | UnsupportedRepresentation string dtype

record heap =
  cbufs :: "complex list list"
  ibufs :: "int list list"

text \<open>A two-dimensional view of a flat complex buffer, in C order.\<close>

record ndarray2 =
  base :: addr
  nrows :: int
  ncols :: int

subsection \<open>Computations that allocate and may raise\<close>

type_synonym 'a prog = "heap \<Rightarrow> (error + 'a) \<times> heap"

definition ret :: "'a \<Rightarrow> 'a prog" where
  "ret x h = (Inr x, h)"

definition raise :: "error \<Rightarrow> 'a prog" where
  "raise e h = (Inl e, h)"

definition bnd :: "'a prog \<Rightarrow> ('a \<Rightarrow> 'b prog) \<Rightarrow> 'b prog" where
  "bnd m f h = (case m h of (Inl e, h') \<Rightarrow> (Inl e, h') | (Inr x, h') \<Rightarrow> f x h')"

subsection \<open>The array primitives of numpy that the module calls\<close>

text \<open>\<^verbatim>\<open>np.array(xs, dtype=complex)\<close> and \<^verbatim>\<open>np.array(xs)\<close> on a list of integers:
  a fresh one-dimensional buffer holding \<open>xs\<close>.\<close>

definition np_array_complex :: "complex list \<Rightarrow> addr prog" where
  "np_array_complex xs h = (Inr (length (cbufs h)), h\<lparr>cbufs := cbufs h @ [xs]\<rparr>)"

definition np_array_int :: "int list \<Rightarrow> addr prog" where
  "np_array_int xs h = (Inr (length (ibufs h)), h\<lparr>ibufs := ibufs h @ [xs]\<rparr>)"

text \<open>\<^verbatim>\<open>np.zeros((r, c), dtype=complex)\<close>: a fresh zero-filled buffer of \<open>r * c\<close> cells
  seen as \<open>r\<close> rows of \<open>c\<close> columns; a negative dimension raises.\<close>

definition np_zeros :: "int \<times> int \<Rightarrow> ndarray2 prog" where
  "np_zeros sh h =
     (if fst sh < 0 \<or> snd sh < 0 then (Inl ValueError, h)
      else (Inr \<lparr>base = length (cbufs h), nrows = fst sh, ncols = snd sh\<rparr>,
            h\<lparr>cbufs := cbufs h @ [replicate (nat (fst sh * snd sh)) 0]\<rparr>))"

text \<open>Python indexing of one axis of length \<open>n\<close>: a negative index counts from the
  end, and an index outside the axis raises \<open>IndexError\<close>.\<close>

definition py_index :: "int \<Rightarrow> int \<Rightarrow> error + nat" where
  "py_index n i =
     (let j = (if i < 0 then n + i else i)
      in if 0 \<le> j \<and> j < n then Inr (nat j) else Inl IndexError)"

text \<open>\<^verbatim>\<open>a[i] = v\<close> on a one-dimensional complex or integer buffer.\<close>

definition setitem_complex :: "addr \<Rightarrow> int \<Rightarrow> complex \<Rightarrow> unit prog" where
  "setitem_complex a i v h =
     (case py_index (int (length (cbufs h ! a))) i of
        Inl e \<Rightarrow> (Inl e, h)
      | Inr k \<Rightarrow> (Inr (), h\<lparr>cbufs := (cbufs h)[a := (cbufs h ! a)[k := v]]\<rparr>))"

definition setitem_int :: "addr \<Rightarrow> int \<Rightarrow> int \<Rightarrow> unit prog" where
  "setitem_int a i v h =
     (case py_index (int (length (ibufs h ! a))) i of
        Inl e \<Rightarrow> (Inl e, h)
      | Inr k \<Rightarrow> (Inr (), h\<lparr>ibufs := (ibufs h)[a := (ibufs h ! a)[k := v]]\<rparr>))"

text \<open>\<^verbatim>\<open>a[i, j] = v\<close> (also \<^verbatim>\<open>a[position] = v\<close> with a tuple) on a two-dimensional
  view: each index is checked against its own axis, and the cell is at the
  linear offset \<open>i * ncols + j\<close> of the buffer.\<close>

definition setitem2 :: "ndarray2 \<Rightarrow> int \<times> int \<Rightarrow> complex \<Rightarrow> unit prog" where
  "setitem2 a ij v h =
     (case py_index (nrows a) (fst ij) of
        Inl e \<Rightarrow> (Inl e, h)
      | Inr i \<Rightarrow>
         (case py_index (ncols a) (snd ij) of
            Inl e \<Rightarrow> (Inl e, h)
          | Inr j \<Rightarrow>
             (Inr (), h\<lparr>cbufs := (cbufs h)[base a :=
                        (cbufs h ! base a)[i * nat (ncols a) + j := v]]\<rparr>)))"

section \<open>Coordinate format\<close>

text \<open>An object of class \<^verbatim>\<open>COO\<close>: the three parallel arrays it was built from
  (\<^verbatim>\<open>copy=False\<close>: the arrays themselves, not copies) and its shape.\<close>

record COO =
  coo_data :: addr
  coo_row :: addr
  coo_col :: addr
  coo_shape :: shape

definition one_element_coo :: "shape \<Rightarrow> position \<Rightarrow> complex \<Rightarrow> COO prog" where
  "one_element_coo shape position value =
     (if \<not> (0 \<le> fst position \<and> fst position < fst shape
             \<and> 0 \<le> snd position \<and> snd position < snd shape)
      then raise (OutOfBoundsError shape position)
      else
        bnd (np_array_complex [value]) (\<lambda>data.
        bnd (np_array_int [fst position]) (\<lambda>row.
        bnd (np_array_int [snd position]) (\<lambda>col.
        ret \<lparr>coo_data = data, coo_row = row, coo_col = col, coo_shape = shape\<rparr>))))"


section \<open>Compressed-row format\<close>

text \<open>An object of class \<^verbatim>\<open>CSR\<close>: the values, the column indices, the row
  pointers and the shape.\<close>

record CSR =
  csr_data :: addr
  csr_indices :: addr
  csr_indptr :: addr
  csr_shape :: shape

text \<open>What freshly allocated, uninitialised memory holds: nothing is known of it,
  so it is a parameter of every computation that allocates without filling.\<close>

record uninit =
  junk_data :: "nat \<Rightarrow> complex"
  junk_indices :: "nat \<Rightarrow> int"
  junk_indptr :: "nat \<Rightarrow> int"

text \<open>
  Modelled from the spec: \<^verbatim>\<open>csr.empty(rows, cols, sz)\<close> (module \<^verbatim>\<open>csr\<close> is not
  among the sources).  Section 4.4: "Allocates an empty row-pointer array of
  length R+1 with one pre-reserved storage slot (N=1)"; section 3: a values
  buffer and a column-index buffer of equal length N and a row-pointer buffer
  \<open>p[0..R]\<close>.  The contents are uninitialised.
\<close>

definition csr_empty :: "uninit \<Rightarrow> int \<Rightarrow> int \<Rightarrow> int \<Rightarrow> CSR prog" where
  "csr_empty u rows cols sz h =
     (Inr \<lparr>csr_data = length (cbufs h),
           csr_indices = length (ibufs h),
           csr_indptr = Suc (length (ibufs h)),
           csr_shape = (rows, cols)\<rparr>,
      h\<lparr>cbufs := cbufs h @ [map (junk_data u) [0..<nat sz]],
        ibufs := ibufs h @ [map (junk_indices u) [0..<nat sz],
                            map (junk_indptr u) [0..<nat (rows + 1)]]\<rparr>)"

text \<open>\<^verbatim>\<open>data.as_scipy(full=True)\<close>: an object over the same three buffers; what is
  written through it is written to \<open>data\<close>.\<close>

definition as_scipy :: "CSR \<Rightarrow> CSR" where
  "as_scipy data = data"

text \<open>The bound of a Python slice on an axis of length \<open>n\<close>: a negative bound
  counts from the end, and the result is clipped to the axis.\<close>

definition py_slice_bound :: "int \<Rightarrow> int \<Rightarrow> nat" where
  "py_slice_bound n i = (if i < 0 then nat (max 0 (n + i)) else nat (min n i))"

text \<open>\<^verbatim>\<open>a[:stop] = v\<close> and \<^verbatim>\<open>a[start:] = v\<close> on an integer buffer.\<close>

definition fill_to :: "addr \<Rightarrow> int \<Rightarrow> int \<Rightarrow> unit prog" where
  "fill_to a stop v h =
     (let xs = ibufs h ! a; k = py_slice_bound (int (length xs)) stop
      in (Inr (), h\<lparr>ibufs := (ibufs h)[a := replicate k v @ drop k xs]\<rparr>))"

definition fill_from :: "addr \<Rightarrow> int \<Rightarrow> int \<Rightarrow> unit prog" where
  "fill_from a start v h =
     (let xs = ibufs h ! a; k = py_slice_bound (int (length xs)) start
      in (Inr (), h\<lparr>ibufs := (ibufs h)[a := take k xs @ replicate (length xs - k) v]\<rparr>))"

definition one_element_csr :: "uninit \<Rightarrow> shape \<Rightarrow> position \<Rightarrow> complex \<Rightarrow> CSR prog" where
  "one_element_csr u shape position value =
     (if \<not> (0 \<le> fst position \<and> fst position < fst shape
             \<and> 0 \<le> snd position \<and> snd position < snd shape)
      then raise (OutOfBoundsError shape position)
      else
        bnd (csr_empty u (fst shape) (snd shape) 1) (\<lambda>data.
        let sci = as_scipy data in
        bnd (setitem_complex (csr_data sci) 0 value) (\<lambda>_.
        bnd (setitem_int (csr_indices sci) 0 (snd position)) (\<lambda>_.
        bnd (fill_to (csr_indptr sci) (fst position + 1) 0) (\<lambda>_.
        bnd (fill_from (csr_indptr sci) (fst position + 1) 1) (\<lambda>_.
        ret data))))))"

section \<open>Dense format\<close>

record Dense =
  dense_data :: addr
  dense_shape :: shape

text \<open>
  Modelled from the spec: \<^verbatim>\<open>dense.zeros(rows, cols, flag)\<close> and \<^verbatim>\<open>Dense.as_ndarray()\<close>
  (module \<^verbatim>\<open>dense\<close> and class \<^verbatim>\<open>Dense\<close> are not among the sources).  Section 4.2:
  "Allocates an R x C all-zero buffer"; section 3: "a contiguous buffer of
  R*C complex scalars in row-major order".  The spec gives the third argument
  (the source passes 1) no meaning, so the model carries it and does not use it.
  \<^verbatim>\<open>as_ndarray\<close> is the two-dimensional view of that buffer.
\<close>

definition dense_zeros :: "int \<Rightarrow> int \<Rightarrow> int \<Rightarrow> Dense prog" where
  "dense_zeros rows cols flag h =
     (Inr \<lparr>dense_data = length (cbufs h), dense_shape = (rows, cols)\<rparr>,
      h\<lparr>cbufs := cbufs h @ [replicate (nat (rows * cols)) 0]\<rparr>)"

definition as_ndarray :: "Dense \<Rightarrow> ndarray2" where
  "as_ndarray data =
     \<lparr>base = dense_data data, nrows = fst (dense_shape data), ncols = snd (dense_shape data)\<rparr>"

definition one_element_dense :: "shape \<Rightarrow> position \<Rightarrow> complex \<Rightarrow> Dense prog" where
  "one_element_dense shape position value =
     (if \<not> (0 \<le> fst position \<and> fst position < fst shape
             \<and> 0 \<le> snd position \<and> snd position < snd shape)
      then raise (OutOfBoundsError shape position)
      else
        bnd (dense_zeros (fst shape) (snd shape) 1) (\<lambda>data.
        let nda = as_ndarray data in
        bnd (setitem2 nda position value) (\<lambda>_.
        ret data)))"

section \<open>Diagonal-offset format\<close>

text \<open>An object of class \<^verbatim>\<open>Dia\<close>: the two-dimensional array of diagonals and the
  array of offsets it was built from (\<^verbatim>\<open>copy=False\<close>), and its shape.\<close>

record Dia =
  dia_data :: ndarray2
  dia_offsets :: addr
  dia_shape :: shape

definition one_element_dia :: "shape \<Rightarrow> position \<Rightarrow> complex \<Rightarrow> Dia prog" where
  "one_element_dia shape position value =
     (if \<not> (0 \<le> fst position \<and> fst position < fst shape
             \<and> 0 \<le> snd position \<and> snd position < snd shape)
      then raise (OutOfBoundsError shape position)
      else
        bnd (np_zeros (1, snd shape)) (\<lambda>data.
        bnd (setitem2 data (0, snd position) value) (\<lambda>_.
        bnd (np_array_int [snd position - fst position]) (\<lambda>offsets.
        ret \<lparr>dia_data = data, dia_offsets = offsets, dia_shape = shape\<rparr>))))"

section \<open>The dispatchers\<close>

text \<open>What a dispatcher returns: an object of one of the four classes.\<close>

datatype Data = COO_Data COO | CSR_Data CSR | Dense_Data Dense | Dia_Data Dia

definition returning :: "('a \<Rightarrow> Data) \<Rightarrow> 'a prog \<Rightarrow> Data prog" where
  "returning tag m = bnd m (\<lambda>x. ret (tag x))"

text \<open>
  Modelled from the spec: the lookup of class \<^verbatim>\<open>Dispatcher\<close> (module \<^verbatim>\<open>dispatch\<close> is
  not among the sources).  Section 4.6: "given a target representation, look
  up the registered encoder; if none is registered for that representation,
  fail with an UnsupportedRepresentation error naming the requested
  representation and the operation."
\<close>

definition find_specialisation :: "string \<Rightarrow> (dtype \<times> 'f) list \<Rightarrow> dtype \<Rightarrow> error + 'f" where
  "find_specialisation name specialisations t =
     (case map_of specialisations t of
        None \<Rightarrow> Inl (UnsupportedRepresentation name t)
      | Some f \<Rightarrow> Inr f)"

text \<open>The specialisations of \<^verbatim>\<open>one_element\<close>, in the order \<^verbatim>\<open>add_specialisations\<close> is given
  them.\<close>

definition one_element_specialisations ::
  "uninit \<Rightarrow> (dtype \<times> (shape \<Rightarrow> position \<Rightarrow> complex \<Rightarrow> Data prog)) list" where
  "one_element_specialisations u =
     [(COO_t, \<lambda>shape position value. returning COO_Data (one_element_coo shape position value)),
      (CSR_t, \<lambda>shape position value. returning CSR_Data (one_element_csr u shape position value)),
      (Dense_t, \<lambda>shape position value. returning Dense_Data (one_element_dense shape position value)),
      (Dia_t, \<lambda>shape position value. returning Dia_Data (one_element_dia shape position value))]"

text \<open>
  Modelled from the spec: a call of the dispatcher \<^verbatim>\<open>one_element\<close> (the call of a
  \<^verbatim>\<open>Dispatcher\<close> is not among the sources).  Section 4.6: "If no representation
  is specified, fall back to a configured default (dense, for one_element).
  The dispatcher itself performs no validation [...] and performs no
  computation beyond selection."  The source creates it as
  \<^verbatim>\<open>_Dispatcher(one_element_dense, name="one_element", inputs=(), out=True)\<close>.
\<close>

definition one_element ::
  "uninit \<Rightarrow> shape \<Rightarrow> position \<Rightarrow> complex \<Rightarrow> dtype option \<Rightarrow> Data prog" where
  "one_element u shape position value dtype =
     (case find_specialisation ''one_element'' (one_element_specialisations u)
             (case dtype of None \<Rightarrow> Dense_t | Some t \<Rightarrow> t) of
        Inl e \<Rightarrow> raise e
      | Inr f \<Rightarrow> f shape position value)"

subsection \<open>The contract of \<^verbatim>\<open>diag\<close>\<close>

text \<open>
  Modelled from the spec: \<^verbatim>\<open>csr.diags\<close>, \<^verbatim>\<open>dia.diags\<close> and \<^verbatim>\<open>dense.diags\<close> (none is
  among the sources; the module holds their signature, their documentation and
  their registration only).  Section 6: every backend accepts "a sequence of
  diagonal-value sequences, a matching sequence of integer offsets (or a single
  integer/sequence shorthand when only one diagonal is given), and an optional
  explicit output shape; when shape is omitted, the backend must compute the
  smallest square shape that exactly fits all diagonals with no leftover or
  missing elements, summing any diagonals that share an offset".  The encoding
  of each format is not described, so the result is the matrix itself: its
  class, its shape and its entries.
\<close>

datatype diagonals_arg = One_diagonal "complex list" | Diagonals "complex list list"
datatype offsets_arg = One_offset int | Offsets "int list"

definition as_diagonals :: "diagonals_arg \<Rightarrow> complex list list" where
  "as_diagonals a = (case a of One_diagonal d \<Rightarrow> [d] | Diagonals ds \<Rightarrow> ds)"

definition as_offsets :: "offsets_arg \<Rightarrow> int list" where
  "as_offsets a = (case a of One_offset k \<Rightarrow> [k] | Offsets ks \<Rightarrow> ks)"

text \<open>The number of cells \<open>(i, i + k)\<close> of the diagonal \<open>k\<close> that lie in a matrix of
  the given shape; \<open>fits\<close>: every diagonal has an offset inside the matrix and
  exactly as many entries as its diagonal has cells, and there are as many
  offsets as diagonals.\<close>

definition diagonal_length :: "shape \<Rightarrow> int \<Rightarrow> int" where
  "diagonal_length shape k = max 0 (min (fst shape) (snd shape - k) - max 0 (- k))"

definition fits :: "shape \<Rightarrow> complex list list \<Rightarrow> int list \<Rightarrow> bool" where
  "fits shape ds ks \<longleftrightarrow>
     length ds = length ks \<and>
     list_all (\<lambda>(d, k). - fst shape < k \<and> k < snd shape
                        \<and> int (length d) = diagonal_length shape k) (zip ds ks)"

definition smallest_square :: "complex list list \<Rightarrow> int list \<Rightarrow> nat option" where
  "smallest_square ds ks =
     find (\<lambda>n. fits (int n, int n) ds ks)
       [0..<Suc (sum_list (map (\<lambda>(d, k). length d + nat \<bar>k\<bar>) (zip ds ks)))]"

definition diagonal_sum :: "complex list list \<Rightarrow> int list \<Rightarrow> int \<Rightarrow> int \<Rightarrow> complex" where
  "diagonal_sum ds ks i j = sum_list [d ! nat (min i j). (d, k) \<leftarrow> zip ds ks, k = j - i]"

text \<open>
  Modelled from the spec: the matrix a backend of \<^verbatim>\<open>diag\<close> returns, and the
  backend itself, after the contract of section 6 quoted above.  The cell
  \<open>(i, j)\<close> is entry \<open>min i j\<close> of its diagonal; the smallest square is searched
  for by size, up to a size no fitting square exceeds.
\<close>

record matrix =
  m_dtype :: dtype
  m_shape :: shape
  m_entry :: "int \<Rightarrow> int \<Rightarrow> complex"

definition diags :: "dtype \<Rightarrow> diagonals_arg \<Rightarrow> offsets_arg \<Rightarrow> shape option \<Rightarrow> error + matrix" where
  "diags t diagonals offsets shape =
     (let ds = as_diagonals diagonals; ks = as_offsets offsets
      in case shape of
           None \<Rightarrow>
             (case smallest_square ds ks of
                None \<Rightarrow> Inl ValueError
              | Some n \<Rightarrow> Inr \<lparr>m_dtype = t, m_shape = (int n, int n), m_entry = diagonal_sum ds ks\<rparr>)
         | Some s \<Rightarrow>
             if fits s ds ks
             then Inr \<lparr>m_dtype = t, m_shape = s, m_entry = diagonal_sum ds ks\<rparr>
             else Inl ValueError)"

text \<open>The specialisations of \<^verbatim>\<open>diag\<close>, in the order \<^verbatim>\<open>add_specialisations\<close> is given
  them (there is none for \<^verbatim>\<open>COO\<close>), and a call of the dispatcher; the spec makes
  the output class a required argument of \<^verbatim>\<open>diag\<close>.\<close>

definition diag_specialisations ::
  "(dtype \<times> (diagonals_arg \<Rightarrow> offsets_arg \<Rightarrow> shape option \<Rightarrow> error + matrix)) list" where
  "diag_specialisations = [(CSR_t, diags CSR_t), (Dia_t, diags Dia_t), (Dense_t, diags Dense_t)]"

definition diag :: "diagonals_arg \<Rightarrow> offsets_arg \<Rightarrow> shape option \<Rightarrow> dtype \<Rightarrow> error + matrix" where
  "diag diagonals offsets shape dtype =
     (case find_specialisation ''diag'' diag_specialisations dtype of
        Inl e \<Rightarrow> Inl e
      | Inr f \<Rightarrow> f diagonals offsets shape)"

section \<open>The matrix a representation denotes\<close>

text \<open>The bounds test of the four constructors (each of them writes it out).\<close>

definition in_bounds :: "shape \<Rightarrow> position \<Rightarrow> bool" where
  "in_bounds shape position \<longleftrightarrow>
     0 \<le> fst position \<and> fst position < fst shape \<and> 0 \<le> snd position \<and> snd position < snd shape"

text \<open>
  Modelled from the spec: reading an entry of each representation (the classes
  are not among the sources), after section 3.  Dense: the cell of the
  row-major buffer.  Coordinate: the sum of the stored values whose row and
  column are the ones asked for.  Compressed-row: row \<open>i\<close> owns the slice
  \<open>p[i] ..< p[i+1]\<close> of the values and of the column indices.  Diagonal-offset:
  the diagonal of offset \<open>j - i\<close>, read at buffer column \<open>j\<close>.
\<close>

definition dense_entry :: "heap \<Rightarrow> Dense \<Rightarrow> int \<Rightarrow> int \<Rightarrow> complex" where
  "dense_entry h m i j = cbufs h ! dense_data m ! nat (i * snd (dense_shape m) + j)"

definition coo_entry :: "heap \<Rightarrow> COO \<Rightarrow> int \<Rightarrow> int \<Rightarrow> complex" where
  "coo_entry h m i j =
     sum_list [v. (v, r, c) \<leftarrow> zip (cbufs h ! coo_data m)
                                (zip (ibufs h ! coo_row m) (ibufs h ! coo_col m)),
                  r = i \<and> c = j]"

definition csr_entry :: "heap \<Rightarrow> CSR \<Rightarrow> int \<Rightarrow> int \<Rightarrow> complex" where
  "csr_entry h m i j =
     (let v = cbufs h ! csr_data m; c = ibufs h ! csr_indices m; p = ibufs h ! csr_indptr m
      in sum_list [v ! k. k \<leftarrow> [nat (p ! nat i) ..< nat (p ! nat (i + 1))], c ! k = j])"

definition dia_entry :: "heap \<Rightarrow> Dia \<Rightarrow> int \<Rightarrow> int \<Rightarrow> complex" where
  "dia_entry h m i j =
     (let d = cbufs h ! base (dia_data m); off = ibufs h ! dia_offsets m
      in sum_list [d ! (k * nat (ncols (dia_data m)) + nat j).
                     k \<leftarrow> [0..<length off], off ! k = j - i])"

text \<open>What a finished call lets its caller see: the entry read back from the
  object it returned, and the arrays that object refers to.\<close>

definition entry_after ::
  "(heap \<Rightarrow> 'a \<Rightarrow> int \<Rightarrow> int \<Rightarrow> complex) \<Rightarrow> (error + 'a) \<times> heap \<Rightarrow> int \<Rightarrow> int \<Rightarrow> complex option" where
  "entry_after rd res i j = (case res of (Inr m, h') \<Rightarrow> Some (rd h' m i j) | (Inl e, h') \<Rightarrow> None)"

definition coo_arrays :: "(error + COO) \<times> heap \<Rightarrow> (complex list \<times> int list \<times> int list) option" where
  "coo_arrays res =
     (case res of
        (Inr m, h') \<Rightarrow> Some (cbufs h' ! coo_data m, ibufs h' ! coo_row m, ibufs h' ! coo_col m)
      | (Inl e, h') \<Rightarrow> None)"

definition csr_arrays :: "(error + CSR) \<times> heap \<Rightarrow> (complex list \<times> int list \<times> int list) option" where
  "csr_arrays res =
     (case res of
        (Inr m, h') \<Rightarrow>
          Some (cbufs h' ! csr_data m, ibufs h' ! csr_indices m, ibufs h' ! csr_indptr m)
      | (Inl e, h') \<Rightarrow> None)"

definition dense_buffer :: "(error + Dense) \<times> heap \<Rightarrow> (shape \<times> complex list) option" where
  "dense_buffer res =
     (case res of
        (Inr m, h') \<Rightarrow> Some (dense_shape m, cbufs h' ! dense_data m)
      | (Inl e, h') \<Rightarrow> None)"

definition dia_arrays :: "(error + Dia) \<times> heap \<Rightarrow> ((int \<times> int) \<times> complex list \<times> int list) option" where
  "dia_arrays res =
     (case res of
        (Inr m, h') \<Rightarrow>
          Some ((nrows (dia_data m), ncols (dia_data m)),
                cbufs h' ! base (dia_data m), ibufs h' ! dia_offsets m)
      | (Inl e, h') \<Rightarrow> None)"

text \<open>The row pointers of a matrix of \<open>R\<close> rows whose one entry is in row \<open>r\<close>.\<close>

definition indptr_of :: "int \<Rightarrow> int \<Rightarrow> int list" where
  "indptr_of R r = replicate (nat (r + 1)) 0 @ replicate (nat (R - r)) 1"

section \<open>What the constructors return\<close>

lemma one_element_coo_result:
  assumes "in_bounds shape position"
  shows "one_element_coo shape position value h =
    (Inr \<lparr>coo_data = length (cbufs h), coo_row = length (ibufs h),
          coo_col = Suc (length (ibufs h)), coo_shape = shape\<rparr>,
     h\<lparr>cbufs := cbufs h @ [[value]],
       ibufs := ibufs h @ [[fst position], [snd position]]\<rparr>)"
  using assms
  by (simp add: in_bounds_def one_element_coo_def bnd_def ret_def np_array_complex_def np_array_int_def)


lemma py_slice_bound_in_range: "0 \<le> i \<Longrightarrow> i \<le> n \<Longrightarrow> py_slice_bound n i = nat i"
  by (simp add: py_slice_bound_def)

lemma one_element_csr_result:
  assumes "in_bounds shape position"
  shows "one_element_csr u shape position value h =
    (Inr \<lparr>csr_data = length (cbufs h), csr_indices = length (ibufs h),
          csr_indptr = Suc (length (ibufs h)), csr_shape = shape\<rparr>,
     h\<lparr>cbufs := cbufs h @ [[value]],
       ibufs := ibufs h @ [[snd position],
          replicate (nat (fst position + 1)) 0 @ replicate (nat (fst shape - fst position)) 1]\<rparr>)"
proof -
  obtain R C r c where sp: "shape = (R, C)" "position = (r, c)"
    by (cases shape, cases position) auto
  from assms sp have b: "0 \<le> r" "r < R" "0 \<le> c" "c < C"
    by (simp_all add: in_bounds_def)
  have k: "py_slice_bound (R + 1) (r + 1) = nat (r + 1)"
    using b by (simp add: py_slice_bound_in_range)
  have k2: "py_slice_bound (1 + R) (r + 1) = nat (r + 1)"
    using b by (simp add: py_slice_bound_in_range)
  have l: "nat (R + 1) - nat (r + 1) = nat (R - r)"
    using b by simp
  have m: "int (nat (r + 1)) + int (nat (R - r)) = R + 1"
    using b by simp
  show ?thesis
    using b unfolding sp
    by (simp add: one_element_csr_def bnd_def ret_def csr_empty_def as_scipy_def
        setitem_complex_def setitem_int_def py_index_def fill_to_def fill_from_def Let_def
        nth_append list_update_append k k2 l m)
qed

lemma one_element_dense_result:
  assumes "in_bounds shape position"
  shows "one_element_dense shape position value h =
    (Inr \<lparr>dense_data = length (cbufs h), dense_shape = shape\<rparr>,
     h\<lparr>cbufs := cbufs h @
        [(replicate (nat (fst shape * snd shape)) 0)
           [nat (fst position) * nat (snd shape) + nat (snd position) := value]]\<rparr>)"
  using assms
  by (simp add: in_bounds_def one_element_dense_def bnd_def ret_def dense_zeros_def
      as_ndarray_def setitem2_def py_index_def Let_def)

lemma one_element_dia_result:
  assumes "in_bounds shape position"
  shows "one_element_dia shape position value h =
    (Inr \<lparr>dia_data = \<lparr>base = length (cbufs h), nrows = 1, ncols = snd shape\<rparr>,
          dia_offsets = length (ibufs h), dia_shape = shape\<rparr>,
     h\<lparr>cbufs := cbufs h @ [(replicate (nat (snd shape)) 0)[nat (snd position) := value]],
       ibufs := ibufs h @ [[snd position - fst position]]\<rparr>)"
  using assms
  by (simp add: in_bounds_def one_element_dia_def bnd_def ret_def np_zeros_def
      np_array_int_def setitem2_def py_index_def Let_def)

lemma coo_reads_back:
  assumes "in_bounds shape position"
  shows "entry_after coo_entry (one_element_coo shape position value h) i j =
         Some (if (i, j) = position then value else 0)"
proof -
  obtain r c where p: "position = (r, c)" by (cases position)
  show ?thesis
    unfolding p
    by (auto simp add: one_element_coo_result [OF assms, unfolded p] entry_after_def
        coo_entry_def nth_append)
qed

lemma dia_reads_back:
  assumes "in_bounds shape position" and "in_bounds shape (i, j)"
  shows "entry_after dia_entry (one_element_dia shape position value h) i j =
         Some (if (i, j) = position then value else 0)"
proof -
  obtain r c where p: "position = (r, c)" by (cases position)
  from assms p have b: "0 \<le> c" "c < snd shape" "0 \<le> j" "j < snd shape"
    by (simp_all add: in_bounds_def)
  have "nat j = nat c \<longleftrightarrow> j = c" using b by auto
  then show ?thesis
    using b unfolding p
    by (auto simp add: one_element_dia_result [OF assms(1), unfolded p] entry_after_def
        dia_entry_def nth_append nth_list_update)
qed

lemma nat_offset_eq:
  assumes "0 \<le> i" "0 \<le> j" "j < C" "0 \<le> r" "0 \<le> c" "c < (C::int)"
  shows "nat (i * C + j) = nat r * nat C + nat c \<longleftrightarrow> i = r \<and> j = c"
proof
  assume e: "nat (i * C + j) = nat r * nat C + nat c"
  have "int (nat (i * C + j)) = i * C + j" using assms by simp
  moreover have "int (nat r * nat C + nat c) = r * C + c" using assms by simp
  ultimately have eq: "i * C + j = r * C + c" using e by simp
  then have "(i * C + j) div C = (r * C + c) div C" by simp
  then have ir: "i = r" using assms by simp
  with eq show "i = r \<and> j = c" by simp
next
  assume "i = r \<and> j = c"
  then show "nat (i * C + j) = nat r * nat C + nat c"
    using assms by (simp add: nat_add_distrib nat_mult_distrib)
qed

lemma dense_reads_back:
  assumes "in_bounds shape position" and "in_bounds shape (i, j)"
  shows "entry_after dense_entry (one_element_dense shape position value h) i j =
         Some (if (i, j) = position then value else 0)"
proof -
  obtain r c where p: "position = (r, c)" by (cases position)
  obtain R C where s: "shape = (R, C)" by (cases shape)
  from assms p s have b: "0 \<le> r" "r < R" "0 \<le> c" "c < C" "0 \<le> i" "i < R" "0 \<le> j" "j < C"
    by (simp_all add: in_bounds_def)
  have e: "nat (i * C + j) = nat r * nat C + nat c \<longleftrightarrow> i = r \<and> j = c"
    using b by (intro nat_offset_eq) simp_all
  have "i * C + j < R * C"
  proof -
    have "i * C + j < i * C + C" using b by simp
    also have "\<dots> = (i + 1) * C" by (simp add: algebra_simps)
    also have "\<dots> \<le> R * C" using b by (intro mult_right_mono) simp_all
    finally show ?thesis .
  qed
  moreover have "0 \<le> i * C + j" using b by simp
  ultimately have lt: "nat (i * C + j) < nat (R * C)" by simp
  have lt2: "nat r * nat C + nat c < nat (R * C)"
  proof -
    have "r * C + c < r * C + C" using b by simp
    also have "\<dots> = (r + 1) * C" by (simp add: algebra_simps)
    also have "\<dots> \<le> R * C" using b by (intro mult_right_mono) simp_all
    finally have "r * C + c < R * C" .
    moreover have "int (nat r * nat C + nat c) = r * C + c" using b by simp
    ultimately show ?thesis by linarith
  qed
  show ?thesis
    using lt lt2 e unfolding p s
    by (auto simp add: one_element_dense_result [OF assms(1), unfolded p s] entry_after_def
        dense_entry_def nth_append nth_list_update)
qed

lemma indptr_of_nth:
  assumes "0 \<le> r" "r < R" "0 \<le> i" "i \<le> R"
  shows "indptr_of R r ! nat i = (if i \<le> r then 0 else 1)"
proof (cases "i \<le> r")
  case True
  then have "nat i < nat (r + 1)" using assms by simp
  then show ?thesis using True by (simp add: indptr_of_def nth_append)
next
  case False
  then have "\<not> nat i < nat (r + 1)" "nat i - nat (r + 1) < nat (R - r)"
    using assms by simp_all
  then show ?thesis using False by (simp add: indptr_of_def nth_append)
qed

lemma csr_reads_back:
  assumes "in_bounds shape position" and "in_bounds shape (i, j)"
  shows "entry_after csr_entry (one_element_csr u shape position value h) i j =
         Some (if (i, j) = position then value else 0)"
proof -
  obtain r c where p: "position = (r, c)" by (cases position)
  obtain R C where s: "shape = (R, C)" by (cases shape)
  from assms p s have b: "0 \<le> r" "r < R" "0 \<le> c" "c < C" "0 \<le> i" "i < R" "0 \<le> j" "j < C"
    by (simp_all add: in_bounds_def)
  have p1: "indptr_of R r ! nat i = (if i \<le> r then 0 else 1)"
    using b by (intro indptr_of_nth) simp_all
  have p2: "indptr_of R r ! nat (i + 1) = (if i + 1 \<le> r then 0 else 1)"
    using b by (intro indptr_of_nth) simp_all
  have rng: "[nat (indptr_of R r ! nat i) ..< nat (indptr_of R r ! nat (i + 1))] =
             (if i = r then [0] else [])"
    unfolding p1 p2 using b by auto
  show ?thesis
    unfolding p s
    using rng
    by (auto simp add: one_element_csr_result [OF assms(1), unfolded p s] entry_after_def
        csr_entry_def nth_append indptr_of_def Let_def)
qed

section \<open>The contract of \<^verbatim>\<open>diag\<close>: the smallest fitting square\<close>

lemma find_upt_Some:
  assumes "find P [0..<N] = Some n"
  shows "P n \<and> n < N \<and> (\<forall>k<n. \<not> P k)"
proof -
  from assms obtain i where i: "i < length [0..<N]" "P ([0..<N] ! i)" "n = [0..<N] ! i"
    "\<forall>j<i. \<not> P ([0..<N] ! j)"
    unfolding find_Some_iff by blast
  then have "n = i" "i < N" by simp_all
  with i show ?thesis by auto
qed

lemma find_upt_total:
  assumes "P n" "n < N"
  shows "\<exists>k. find P [0..<N] = Some k"
proof (cases "find P [0..<N]")
  case None
  then have "\<not> (\<exists>x. x \<in> set [0..<N] \<and> P x)" unfolding find_None_iff .
  with assms show ?thesis by simp
next
  case (Some k)
  then show ?thesis by blast
qed

lemma fits_square_size:
  assumes "fits (int n, int n) ds ks" and "(d, k) \<in> set (zip ds ks)"
  shows "n = length d + nat \<bar>k\<bar>"
proof -
  from assms have "- int n < k \<and> k < int n \<and> int (length d) = diagonal_length (int n, int n) k"
    by (auto simp add: fits_def list_all_iff)
  then show ?thesis
    by (auto simp add: diagonal_length_def max_def min_def split: if_splits)
qed

lemma fits_square_bound:
  assumes "fits (int n, int n) ds ks" and "zip ds ks \<noteq> []"
  shows "n \<le> sum_list (map (\<lambda>(d, k). length d + nat \<bar>k\<bar>) (zip ds ks))"
proof -
  from assms(2) obtain d k where m: "(d, k) \<in> set (zip ds ks)"
    by (cases "zip ds ks") auto
  then have "length d + nat \<bar>k\<bar> \<in> set (map (\<lambda>(d, k). length d + nat \<bar>k\<bar>) (zip ds ks))"
    by force
  then have "length d + nat \<bar>k\<bar> \<le> sum_list (map (\<lambda>(d, k). length d + nat \<bar>k\<bar>) (zip ds ks))"
    by (rule member_le_sum_list) simp_all
  with fits_square_size [OF assms(1) m] show ?thesis by simp
qed

lemma fits_empty: "zip ds ks = [] \<Longrightarrow> fits s ds ks \<Longrightarrow> fits (0, 0) ds ks"
  by (auto simp add: fits_def)

lemma smallest_square_Some:
  assumes "smallest_square ds ks = Some n"
  shows "fits (int n, int n) ds ks \<and> (\<forall>k<n. \<not> fits (int k, int k) ds ks)"
  using find_upt_Some [OF assms [unfolded smallest_square_def]] by simp

lemma smallest_square_total:
  assumes "fits (int n, int n) ds ks"
  shows "\<exists>k. smallest_square ds ks = Some k"
proof (cases "zip ds ks = []")
  case True
  from fits_empty [OF True assms] have "fits (int 0, int 0) ds ks" by simp
  then show ?thesis
    unfolding smallest_square_def
    by (rule find_upt_total [where P = "\<lambda>n. fits (int n, int n) ds ks"]) simp
next
  case False
  from fits_square_bound [OF assms False]
  have "n < Suc (sum_list (map (\<lambda>(d, k). length d + nat \<bar>k\<bar>) (zip ds ks)))" by simp
  with assms show ?thesis
    unfolding smallest_square_def
    by (rule find_upt_total [where P = "\<lambda>n. fits (int n, int n) ds ks"])
qed

lemma diag_registered:
  "t \<noteq> COO_t \<Longrightarrow> diag diagonals offsets shape t = diags t diagonals offsets shape"
  by (cases t) (simp_all add: diag_def find_specialisation_def diag_specialisations_def)

lemma diag_unregistered:
  "diag diagonals offsets shape COO_t = Inl (UnsupportedRepresentation ''diag'' COO_t)"
  by (simp add: diag_def find_specialisation_def diag_specialisations_def)

lemma diag_None_Inr:
  assumes "diag diagonals offsets None t = Inr m"
  shows "\<exists>n. m_shape m = (int n, int n) \<and> m_dtype m = t
    \<and> fits (int n, int n) (as_diagonals diagonals) (as_offsets offsets)
    \<and> (\<forall>k<n. \<not> fits (int k, int k) (as_diagonals diagonals) (as_offsets offsets))
    \<and> m_entry m = diagonal_sum (as_diagonals diagonals) (as_offsets offsets)"
proof -
  from assms have t: "t \<noteq> COO_t" by (auto simp add: diag_unregistered)
  from assms obtain n where n: "smallest_square (as_diagonals diagonals) (as_offsets offsets) = Some n"
    and m: "m = \<lparr>m_dtype = t, m_shape = (int n, int n),
                 m_entry = diagonal_sum (as_diagonals diagonals) (as_offsets offsets)\<rparr>"
    unfolding diag_registered [OF t]
    by (auto simp add: diags_def Let_def split: option.splits)
  from smallest_square_Some [OF n] m show ?thesis by auto
qed

lemma diag_None_total:
  assumes "fits (int n, int n) (as_diagonals diagonals) (as_offsets offsets)" and "t \<noteq> COO_t"
  shows "\<exists>m. diag diagonals offsets None t = Inr m"
proof -
  from smallest_square_total [OF assms(1)] obtain k
    where "smallest_square (as_diagonals diagonals) (as_offsets offsets) = Some k" ..
  then show ?thesis
    unfolding diag_registered [OF assms(2)] by (simp add: diags_def)
qed

section \<open>Rejected positions\<close>

lemma one_element_coo_rejects:
  "\<not> in_bounds shape position \<Longrightarrow>
   one_element_coo shape position value h = (Inl (OutOfBoundsError shape position), h)"
  by (simp add: in_bounds_def one_element_coo_def raise_def)

lemma one_element_csr_rejects:
  "\<not> in_bounds shape position \<Longrightarrow>
   one_element_csr u shape position value h = (Inl (OutOfBoundsError shape position), h)"
  by (simp add: in_bounds_def one_element_csr_def raise_def)

lemma one_element_dense_rejects:
  "\<not> in_bounds shape position \<Longrightarrow>
   one_element_dense shape position value h = (Inl (OutOfBoundsError shape position), h)"
  by (simp add: in_bounds_def one_element_dense_def raise_def)

lemma one_element_dia_rejects:
  "\<not> in_bounds shape position \<Longrightarrow>
   one_element_dia shape position value h = (Inl (OutOfBoundsError shape position), h)"
  by (simp add: in_bounds_def one_element_dia_def raise_def)

section \<open>The claims\<close>

text \<open>
  C1.  For a position inside the shape and any value, the four constructors
  encode the same matrix: the entry read back from the object each of them
  returns is the value at the position they were given, and zero at every
  other position inside the shape.
\<close>

theorem one_element_same_matrix:
  assumes "in_bounds shape position" and "in_bounds shape (i, j)"
  shows "entry_after dense_entry (one_element_dense shape position value h) i j
           = Some (if (i, j) = position then value else 0)
       \<and> entry_after coo_entry (one_element_coo shape position value h) i j
           = Some (if (i, j) = position then value else 0)
       \<and> entry_after csr_entry (one_element_csr u shape position value h) i j
           = Some (if (i, j) = position then value else 0)
       \<and> entry_after dia_entry (one_element_dia shape position value h) i j
           = Some (if (i, j) = position then value else 0)"
  using assms
  by (simp only: dense_reads_back coo_reads_back csr_reads_back dia_reads_back simp_thms)

theorem one_element_same_matrix_witness:
  "in_bounds (2, 3) (1, 2) \<and> in_bounds (2, 3) (0, 1)
   \<and> entry_after dense_entry (one_element_dense (2, 3) (1, 2) 5 \<lparr>cbufs = [], ibufs = []\<rparr>) 1 2 = Some 5
   \<and> entry_after coo_entry (one_element_coo (2, 3) (1, 2) 5 \<lparr>cbufs = [], ibufs = []\<rparr>) 1 2 = Some 5
   \<and> entry_after csr_entry (one_element_csr
        \<lparr>junk_data = (\<lambda>k. 7), junk_indices = (\<lambda>k. 8), junk_indptr = (\<lambda>k. 9)\<rparr>
        (2, 3) (1, 2) 5 \<lparr>cbufs = [], ibufs = []\<rparr>) 1 2 = Some 5
   \<and> entry_after dia_entry (one_element_dia (2, 3) (1, 2) 5 \<lparr>cbufs = [], ibufs = []\<rparr>) 1 2 = Some 5
   \<and> entry_after dense_entry (one_element_dense (2, 3) (1, 2) 5 \<lparr>cbufs = [], ibufs = []\<rparr>) 0 1 = Some 0
   \<and> entry_after coo_entry (one_element_coo (2, 3) (1, 2) 5 \<lparr>cbufs = [], ibufs = []\<rparr>) 0 1 = Some 0
   \<and> entry_after csr_entry (one_element_csr
        \<lparr>junk_data = (\<lambda>k. 7), junk_indices = (\<lambda>k. 8), junk_indptr = (\<lambda>k. 9)\<rparr>
        (2, 3) (1, 2) 5 \<lparr>cbufs = [], ibufs = []\<rparr>) 0 1 = Some 0
   \<and> entry_after dia_entry (one_element_dia (2, 3) (1, 2) 5 \<lparr>cbufs = [], ibufs = []\<rparr>) 0 1 = Some 0"
proof -
  have a: "in_bounds (2, 3) (1, 2)" and b: "in_bounds (2, 3) (0, 1)"
    by (simp_all add: in_bounds_def)
  show ?thesis
    using a b
      one_element_same_matrix [OF a a, of 5 "\<lparr>cbufs = [], ibufs = []\<rparr>"
        "\<lparr>junk_data = (\<lambda>k. 7), junk_indices = (\<lambda>k. 8), junk_indptr = (\<lambda>k. 9)\<rparr>"]
      one_element_same_matrix [OF a b, of 5 "\<lparr>cbufs = [], ibufs = []\<rparr>"
        "\<lparr>junk_data = (\<lambda>k. 7), junk_indices = (\<lambda>k. 8), junk_indptr = (\<lambda>k. 9)\<rparr>"]
    by simp
qed

text \<open>
  C2.  For a position outside the shape (row below 0 or not below R, or column
  below 0 or not below C), each of the four constructors raises
  \<open>OutOfBoundsError\<close> with exactly that shape and that position, and the store
  it leaves is the store it was given: no buffer has been allocated.
\<close>

theorem one_element_out_of_bounds:
  assumes "fst position < 0 \<or> fst shape \<le> fst position
         \<or> snd position < 0 \<or> snd shape \<le> snd position"
  shows "one_element_dense shape position value h = (Inl (OutOfBoundsError shape position), h)
       \<and> one_element_coo shape position value h = (Inl (OutOfBoundsError shape position), h)
       \<and> one_element_csr u shape position value h = (Inl (OutOfBoundsError shape position), h)
       \<and> one_element_dia shape position value h = (Inl (OutOfBoundsError shape position), h)"
proof -
  from assms have "\<not> in_bounds shape position"
    by (auto simp add: in_bounds_def)
  then show ?thesis
    by (simp only: one_element_dense_rejects one_element_coo_rejects one_element_csr_rejects
        one_element_dia_rejects simp_thms)
qed

theorem one_element_out_of_bounds_witness:
  "(2::int) \<le> fst ((2, 0) :: position)
   \<and> one_element_dense (2, 2) (2, 0) 1 \<lparr>cbufs = [[4]], ibufs = []\<rparr>
       = (Inl (OutOfBoundsError (2, 2) (2, 0)), \<lparr>cbufs = [[4]], ibufs = []\<rparr>)
   \<and> one_element_coo (2, 2) (2, 0) 1 \<lparr>cbufs = [[4]], ibufs = []\<rparr>
       = (Inl (OutOfBoundsError (2, 2) (2, 0)), \<lparr>cbufs = [[4]], ibufs = []\<rparr>)
   \<and> one_element_csr \<lparr>junk_data = (\<lambda>k. 7), junk_indices = (\<lambda>k. 8), junk_indptr = (\<lambda>k. 9)\<rparr>
        (2, 2) (2, 0) 1 \<lparr>cbufs = [[4]], ibufs = []\<rparr>
       = (Inl (OutOfBoundsError (2, 2) (2, 0)), \<lparr>cbufs = [[4]], ibufs = []\<rparr>)
   \<and> one_element_dia (2, 2) (2, 0) 1 \<lparr>cbufs = [[4]], ibufs = []\<rparr>
       = (Inl (OutOfBoundsError (2, 2) (2, 0)), \<lparr>cbufs = [[4]], ibufs = []\<rparr>)"
  using one_element_out_of_bounds [of "(2, 0)" "(2, 2)" 1 "\<lparr>cbufs = [[4]], ibufs = []\<rparr>"
      "\<lparr>junk_data = (\<lambda>k. 7), junk_indices = (\<lambda>k. 8), junk_indptr = (\<lambda>k. 9)\<rparr>"]
  by simp

lemma indptr_of_sorted: "sorted (indptr_of R r)"
  by (simp add: indptr_of_def sorted_append)

lemma indptr_of_length: "0 \<le> r \<Longrightarrow> r < R \<Longrightarrow> length (indptr_of R r) = nat (R + 1)"
  by (simp add: indptr_of_def)

lemma csr_arrays_one_element:
  assumes "in_bounds shape position"
  shows "csr_arrays (one_element_csr u shape position value h) =
         Some ([value], [snd position], indptr_of (fst shape) (fst position))"
  by (simp add: one_element_csr_result [OF assms] csr_arrays_def nth_append indptr_of_def)

text \<open>
  C3.  For a position inside the shape, \<open>one_element_csr\<close> returns the values
  \<open>[value]\<close>, the column indices \<open>[col]\<close> and a row-pointer array \<open>p\<close> of length
  \<open>R + 1\<close> with \<open>p[i] = 0\<close> for \<open>i \<le> row\<close> and \<open>p[i] = 1\<close> for \<open>i > row\<close>; so \<open>p\<close> is
  non-decreasing, \<open>p[0] = 0\<close>, \<open>p[R] = 1\<close>, and \<open>p[i] \<noteq> p[i+1]\<close> exactly when
  \<open>i = row\<close>.
\<close>

theorem one_element_csr_row_pointers:
  assumes "in_bounds shape position"
  shows "\<exists>p. csr_arrays (one_element_csr u shape position value h)
               = Some ([value], [snd position], p)
     \<and> length p = nat (fst shape + 1)
     \<and> (\<forall>i. 0 \<le> i \<and> i \<le> fst position \<longrightarrow> p ! nat i = 0)
     \<and> (\<forall>i. fst position < i \<and> i \<le> fst shape \<longrightarrow> p ! nat i = 1)
     \<and> sorted p \<and> p ! 0 = 0 \<and> p ! nat (fst shape) = 1
     \<and> (\<forall>i. 0 \<le> i \<and> i < fst shape \<longrightarrow> (p ! nat i \<noteq> p ! nat (i + 1)) = (i = fst position))"
proof -
  obtain r c where p: "position = (r, c)" by (cases position)
  obtain R C where s: "shape = (R, C)" by (cases shape)
  from assms p s have b: "0 \<le> r" "r < R"
    by (simp_all add: in_bounds_def)
  have nth: "indptr_of R r ! nat i = (if i \<le> r then 0 else 1)" if "0 \<le> i" "i \<le> R" for i
    using b that by (rule indptr_of_nth)
  have z: "indptr_of R r ! 0 = 0"
    using nth [of 0] b by simp
  have diff: "(indptr_of R r ! nat i \<noteq> indptr_of R r ! nat (i + 1)) = (i = r)"
    if "0 \<le> i" "i < R" for i
    using nth [of i] nth [of "i + 1"] that by auto
  have ca: "csr_arrays (one_element_csr u (R, C) (r, c) value h) =
            Some ([value], [c], indptr_of R r)"
    using csr_arrays_one_element [OF assms, of u "value" h] unfolding p s by simp
  show ?thesis
    unfolding p s
    using b z diff
    by (intro exI [of _ "indptr_of R r"])
       (simp add: ca nth indptr_of_sorted indptr_of_length)
qed

theorem one_element_csr_row_pointers_witness:
  "in_bounds (4, 4) (2, 3)
   \<and> csr_arrays (one_element_csr
        \<lparr>junk_data = (\<lambda>k. 7), junk_indices = (\<lambda>k. 8), junk_indptr = (\<lambda>k. 9)\<rparr>
        (4, 4) (2, 3) 1 \<lparr>cbufs = [], ibufs = []\<rparr>) = Some ([1], [3], [0, 0, 0, 1, 1])"
proof -
  have a: "in_bounds (4, 4) (2, 3)" by (simp add: in_bounds_def)
  have n: "[0..<5] = [0, 1, 2, 3, 4]" by (simp add: upt_rec)
  show ?thesis
    using a one_element_csr_row_pointers [OF a, of
        "\<lparr>junk_data = (\<lambda>k. 7), junk_indices = (\<lambda>k. 8), junk_indptr = (\<lambda>k. 9)\<rparr>"
        1 "\<lparr>cbufs = [], ibufs = []\<rparr>"]
    by (simp add: csr_arrays_one_element indptr_of_def numeral_eq_Suc)
qed


lemma offset_in_buffer:
  assumes "0 \<le> r" "r < R" "0 \<le> c" "c < (C::int)"
  shows "nat (r * C + c) < nat (R * C)" and "nat r * nat C + nat c = nat (r * C + c)"
proof -
  have "r * C + c < r * C + C" using assms by simp
  also have "\<dots> = (r + 1) * C" by (simp add: algebra_simps)
  also have "\<dots> \<le> R * C" using assms by (intro mult_right_mono) simp_all
  finally have "r * C + c < R * C" .
  moreover have "0 \<le> r * C + c" using assms by simp
  ultimately show "nat (r * C + c) < nat (R * C)" by simp
  show "nat r * nat C + nat c = nat (r * C + c)"
    using assms by (simp add: nat_add_distrib nat_mult_distrib)
qed

text \<open>
  C4.  For a position inside the shape, \<open>one_element_dense\<close> returns one buffer
  of \<open>R * C\<close> complex cells in row-major order (the cell of row \<open>i\<close> and column
  \<open>j\<close> is at offset \<open>i * C + j\<close>), every cell zero but the one of the position,
  which holds the value.
\<close>

theorem one_element_dense_buffer:
  assumes "in_bounds shape position"
  shows "\<exists>buf. dense_buffer (one_element_dense shape position value h) = Some (shape, buf)
     \<and> length buf = nat (fst shape * snd shape)
     \<and> buf = (replicate (nat (fst shape * snd shape)) 0)
                [nat (fst position * snd shape + snd position) := value]
     \<and> nat (fst position * snd shape + snd position) < length buf
     \<and> (\<forall>i j. in_bounds shape (i, j) \<longrightarrow>
           nat (i * snd shape + j) < length buf
         \<and> buf ! nat (i * snd shape + j) = (if (i, j) = position then value else 0))"
proof -
  obtain r c where p: "position = (r, c)" by (cases position)
  obtain R C where s: "shape = (R, C)" by (cases shape)
  from assms p s have b: "0 \<le> r" "r < R" "0 \<le> c" "c < C"
    by (simp_all add: in_bounds_def)
  let ?buf = "(replicate (nat (R * C)) 0)[nat (r * C + c) := value]"
  have db: "dense_buffer (one_element_dense (R, C) (r, c) value h) = Some ((R, C), ?buf)"
    using b by (simp add: one_element_dense_result [OF assms, unfolded p s] dense_buffer_def
        offset_in_buffer(2))
  have cell: "nat (i * C + j) < nat (R * C)
      \<and> ?buf ! nat (i * C + j) = (if (i, j) = (r, c) then value else 0)"
    if "in_bounds (R, C) (i, j)" for i j
  proof -
    from that have ij: "0 \<le> i" "i < R" "0 \<le> j" "j < C"
      by (simp_all add: in_bounds_def)
    have lt: "nat (i * C + j) < nat (R * C)"
      using ij by (rule offset_in_buffer(1))
    have "nat (i * C + j) = nat r * nat C + nat c \<longleftrightarrow> i = r \<and> j = c"
      using ij b by (intro nat_offset_eq) simp_all
    then have e: "nat (r * C + c) = nat (i * C + j) \<longleftrightarrow> i = r \<and> j = c"
      using offset_in_buffer(2) [OF b] by auto
    have len: "nat (i * C + j) < length (replicate (nat (R * C)) (0::complex))"
      using lt by (simp only: length_replicate)
    have "?buf ! nat (i * C + j) = (if (i, j) = (r, c) then value else 0)"
    proof (cases "i = r \<and> j = c")
      case True
      with len show ?thesis by (simp only: nth_list_update_eq) simp
    next
      case False
      with e have "nat (r * C + c) \<noteq> nat (i * C + j)" by simp
      then have "?buf ! nat (i * C + j) = replicate (nat (R * C)) 0 ! nat (i * C + j)"
        by (rule nth_list_update_neq)
      also have "\<dots> = 0" using lt by (rule nth_replicate)
      finally show ?thesis using False by auto
    qed
    with lt show ?thesis by (rule conjI)
  qed
  show ?thesis
    unfolding p s
    using offset_in_buffer(1) [OF b] cell
    by (intro exI [of _ ?buf]) (simp add: db)
qed

theorem one_element_dense_buffer_witness:
  "in_bounds (3, 3) (1, 1)
   \<and> dense_buffer (one_element_dense (3, 3) (1, 1) 2 \<lparr>cbufs = [], ibufs = []\<rparr>)
       = Some ((3, 3), [0, 0, 0, 0, 2, 0, 0, 0, 0])"
proof -
  have a: "in_bounds (3, 3) (1, 1)" by (simp add: in_bounds_def)
  show ?thesis
    using a one_element_dense_buffer [OF a, of 2 "\<lparr>cbufs = [], ibufs = []\<rparr>"]
    by (auto simp add: numeral_eq_Suc)
qed

text \<open>
  C5.  For a position inside the shape, \<open>one_element_dia\<close> returns the offsets
  \<open>[col - row]\<close> and a buffer of one row and \<open>C\<close> columns, zero everywhere but at
  buffer column \<open>col\<close>, which holds the value.
\<close>

theorem one_element_dia_buffer:
  assumes "in_bounds shape position"
  shows "dia_arrays (one_element_dia shape position value h) =
           Some ((1, snd shape),
                 (replicate (nat (snd shape)) 0)[nat (snd position) := value],
                 [snd position - fst position])
       \<and> nat (snd position) < nat (snd shape)"
  using assms
  by (simp add: one_element_dia_result [OF assms] dia_arrays_def in_bounds_def)

theorem one_element_dia_buffer_witness:
  "in_bounds (3, 3) (0, 2)
   \<and> dia_arrays (one_element_dia (3, 3) (0, 2) 1 \<lparr>cbufs = [], ibufs = []\<rparr>)
       = Some ((1, 3), [0, 0, 1], [2])"
proof -
  have a: "in_bounds (3, 3) (0, 2)" by (simp add: in_bounds_def)
  show ?thesis
    using a one_element_dia_buffer [OF a, of 1 "\<lparr>cbufs = [], ibufs = []\<rparr>"]
    by (simp add: numeral_eq_Suc)
qed

text \<open>
  C6.  For a position inside the shape, \<open>one_element_coo\<close> returns the triplet
  \<open>values = [value]\<close>, \<open>rows = [row]\<close>, \<open>cols = [col]\<close>; its three arrays are at
  addresses that held no buffer before the call, and the buffers that existed
  before the call are unchanged.
\<close>

theorem one_element_coo_triplet:
  assumes "in_bounds shape position"
  shows "coo_arrays (one_element_coo shape position value h)
           = Some ([value], [fst position], [snd position])
       \<and> (\<exists>m h'. one_element_coo shape position value h = (Inr m, h')
            \<and> coo_shape m = shape
            \<and> length (cbufs h) \<le> coo_data m
            \<and> length (ibufs h) \<le> coo_row m
            \<and> length (ibufs h) \<le> coo_col m
            \<and> take (length (cbufs h)) (cbufs h') = cbufs h
            \<and> take (length (ibufs h)) (ibufs h') = ibufs h)"
  by (simp add: one_element_coo_result [OF assms] coo_arrays_def nth_append)

theorem one_element_coo_triplet_witness:
  "in_bounds (2, 2) (0, 1)
   \<and> coo_arrays (one_element_coo (2, 2) (0, 1) 1 \<lparr>cbufs = [[4, 4]], ibufs = [[6]]\<rparr>)
       = Some ([1], [0], [1])
   \<and> one_element_coo (2, 2) (0, 1) 1 \<lparr>cbufs = [[4, 4]], ibufs = [[6]]\<rparr>
       = (Inr \<lparr>coo_data = 1, coo_row = 1, coo_col = 2, coo_shape = (2, 2)\<rparr>,
          \<lparr>cbufs = [[4, 4], [1]], ibufs = [[6], [0], [1]]\<rparr>)"
proof -
  have a: "in_bounds (2, 2) (0, 1)" by (simp add: in_bounds_def)
  show ?thesis
    using a one_element_coo_triplet [OF a, of 1 "\<lparr>cbufs = [[4, 4]], ibufs = [[6]]\<rparr>"]
    by (simp add: one_element_coo_result)
qed


text \<open>
  C7.  Called with no output class, the dispatcher \<open>one_element\<close> returns what
  \<open>one_element_dense\<close> returns on the same shape, position and value (as an
  object of class \<open>Dense\<close>): the default of \<open>one_element\<close> is dense.
\<close>

theorem one_element_default_dense:
  "one_element u shape position value None =
   returning Dense_Data (one_element_dense shape position value)"
  by (simp add: one_element_def find_specialisation_def one_element_specialisations_def)

theorem one_element_default_dense_witness:
  "one_element \<lparr>junk_data = (\<lambda>k. 7), junk_indices = (\<lambda>k. 8), junk_indptr = (\<lambda>k. 9)\<rparr>
     (3, 3) (1, 1) 2 None \<lparr>cbufs = [], ibufs = []\<rparr>
   = (Inr (Dense_Data \<lparr>dense_data = 0, dense_shape = (3, 3)\<rparr>),
      \<lparr>cbufs = [[0, 0, 0, 0, 2, 0, 0, 0, 0]], ibufs = []\<rparr>)"
proof -
  have a: "in_bounds (3, 3) (1, 1)" by (simp add: in_bounds_def)
  show ?thesis
    unfolding one_element_default_dense
    by (simp add: returning_def bnd_def ret_def one_element_dense_result [OF a] numeral_eq_Suc)
qed

text \<open>
  C9.  For a position inside the shape and any value, zero included, each sparse
  constructor stores exactly one entry: \<open>one_element_coo\<close> returns three arrays
  of length 1, \<open>one_element_csr\<close> returns values and column indices of length 1
  and row pointers with \<open>p[R] = 1\<close>, and \<open>one_element_dia\<close> returns one diagonal
  (one buffer row, one offset).
\<close>

theorem one_element_stored_entries:
  assumes "in_bounds shape position"
  shows "(\<exists>vs rs cs. coo_arrays (one_element_coo shape position value h) = Some (vs, rs, cs)
            \<and> length vs = 1 \<and> length rs = 1 \<and> length cs = 1)
       \<and> (\<exists>vs cs p. csr_arrays (one_element_csr u shape position value h) = Some (vs, cs, p)
            \<and> length vs = 1 \<and> length cs = 1 \<and> p ! nat (fst shape) = 1)
       \<and> (\<exists>d ks. dia_arrays (one_element_dia shape position value h)
                     = Some ((1, snd shape), d, ks)
            \<and> length ks = 1)"
proof -
  obtain r c where p: "position = (r, c)" by (cases position)
  obtain R C where s: "shape = (R, C)" by (cases shape)
  from assms p s have b: "0 \<le> r" "r < R"
    by (simp_all add: in_bounds_def)
  have last: "indptr_of R r ! nat R = 1"
    using indptr_of_nth [OF b, of R] b by simp
  have "\<exists>vs rs cs. coo_arrays (one_element_coo shape position value h) = Some (vs, rs, cs)
            \<and> length vs = 1 \<and> length rs = 1 \<and> length cs = 1"
    by (simp add: one_element_coo_result [OF assms] coo_arrays_def nth_append)
  moreover have "\<exists>vs cs p. csr_arrays (one_element_csr u shape position value h) = Some (vs, cs, p)
            \<and> length vs = 1 \<and> length cs = 1 \<and> p ! nat (fst shape) = 1"
    using last csr_arrays_one_element [OF assms, of u "value" h] unfolding p s by simp
  moreover have "\<exists>d ks. dia_arrays (one_element_dia shape position value h)
                     = Some ((1, snd shape), d, ks) \<and> length ks = 1"
    by (simp add: one_element_dia_result [OF assms] dia_arrays_def)
  ultimately show ?thesis by (intro conjI)
qed

theorem one_element_stored_entries_witness:
  "in_bounds (2, 2) (1, 0)
   \<and> coo_arrays (one_element_coo (2, 2) (1, 0) 0 \<lparr>cbufs = [], ibufs = []\<rparr>)
       = Some ([0], [1], [0])
   \<and> csr_arrays (one_element_csr
        \<lparr>junk_data = (\<lambda>k. 7), junk_indices = (\<lambda>k. 8), junk_indptr = (\<lambda>k. 9)\<rparr>
        (2, 2) (1, 0) 0 \<lparr>cbufs = [], ibufs = []\<rparr>) = Some ([0], [0], [0, 0, 1])
   \<and> dia_arrays (one_element_dia (2, 2) (1, 0) 0 \<lparr>cbufs = [], ibufs = []\<rparr>)
       = Some ((1, 2), [0, 0], [- 1])"
proof -
  have a: "in_bounds (2, 2) (1, 0)" by (simp add: in_bounds_def)
  show ?thesis
    using a one_element_stored_entries [OF a, of 0 "\<lparr>cbufs = [], ibufs = []\<rparr>"
        "\<lparr>junk_data = (\<lambda>k. 7), junk_indices = (\<lambda>k. 8), junk_indptr = (\<lambda>k. 9)\<rparr>"]
    by (simp add: one_element_coo_result one_element_dia_result csr_arrays_one_element
        coo_arrays_def dia_arrays_def indptr_of_def numeral_eq_Suc)
qed

text \<open>
  C10.  For a shape with a dimension that is not positive (\<open>R \<le> 0\<close> or \<open>C \<le> 0\<close>),
  each of the four constructors raises \<open>OutOfBoundsError\<close> at every position, and
  the store it leaves is the store it was given: no buffer has been allocated.
\<close>

theorem one_element_empty_shape:
  assumes "fst shape \<le> 0 \<or> snd shape \<le> 0"
  shows "one_element_dense shape position value h = (Inl (OutOfBoundsError shape position), h)
       \<and> one_element_coo shape position value h = (Inl (OutOfBoundsError shape position), h)
       \<and> one_element_csr u shape position value h = (Inl (OutOfBoundsError shape position), h)
       \<and> one_element_dia shape position value h = (Inl (OutOfBoundsError shape position), h)"
proof -
  from assms have "\<not> in_bounds shape position"
    by (auto simp add: in_bounds_def)
  then show ?thesis
    by (simp only: one_element_dense_rejects one_element_coo_rejects one_element_csr_rejects
        one_element_dia_rejects simp_thms)
qed

theorem one_element_empty_shape_witness:
  "fst ((0, 3) :: shape) \<le> 0
   \<and> one_element_dense (0, 3) (0, 0) 1 \<lparr>cbufs = [], ibufs = [[5]]\<rparr>
       = (Inl (OutOfBoundsError (0, 3) (0, 0)), \<lparr>cbufs = [], ibufs = [[5]]\<rparr>)
   \<and> one_element_coo (0, 3) (0, 0) 1 \<lparr>cbufs = [], ibufs = [[5]]\<rparr>
       = (Inl (OutOfBoundsError (0, 3) (0, 0)), \<lparr>cbufs = [], ibufs = [[5]]\<rparr>)
   \<and> one_element_csr \<lparr>junk_data = (\<lambda>k. 7), junk_indices = (\<lambda>k. 8), junk_indptr = (\<lambda>k. 9)\<rparr>
        (0, 3) (0, 0) 1 \<lparr>cbufs = [], ibufs = [[5]]\<rparr>
       = (Inl (OutOfBoundsError (0, 3) (0, 0)), \<lparr>cbufs = [], ibufs = [[5]]\<rparr>)
   \<and> one_element_dia (0, 3) (0, 0) 1 \<lparr>cbufs = [], ibufs = [[5]]\<rparr>
       = (Inl (OutOfBoundsError (0, 3) (0, 0)), \<lparr>cbufs = [], ibufs = [[5]]\<rparr>)"
  using one_element_empty_shape [of "(0, 3)" "(0, 0)" 1 "\<lparr>cbufs = [], ibufs = [[5]]\<rparr>"
      "\<lparr>junk_data = (\<lambda>k. 7), junk_indices = (\<lambda>k. 8), junk_indptr = (\<lambda>k. 9)\<rparr>"]
  by simp

lemma nth_ones:
  assumes "0 \<le> i" "i < 3"
  shows "[1, 1, 1 :: complex] ! nat i = 1"
proof -
  from assms have "i = 0 \<or> i = 1 \<or> i = 2" by auto
  then show ?thesis by auto
qed

lemma diag_ones:
  assumes "t \<noteq> COO_t"
  shows "\<exists>m. diag (Diagonals [[1, 1, 1]]) (One_offset 0) None t = Inr m
     \<and> m_shape m = (3, 3)
     \<and> (\<forall>i j. 0 \<le> i \<and> i < 3 \<and> 0 \<le> j \<and> j < 3 \<longrightarrow> m_entry m i j = (if i = j then 1 else 0))"
proof -
  have f: "fits (int 3, int 3) (as_diagonals (Diagonals [[1, 1, 1]])) (as_offsets (One_offset 0))"
    by (simp add: fits_def as_diagonals_def as_offsets_def diagonal_length_def)
  from diag_None_total [OF f assms] obtain m
    where m: "diag (Diagonals [[1, 1, 1]]) (One_offset 0) None t = Inr m" ..
  from diag_None_Inr [OF m] obtain n where n: "m_shape m = (int n, int n)"
    "fits (int n, int n) (as_diagonals (Diagonals [[1, 1, 1]])) (as_offsets (One_offset 0))"
    "m_entry m = diagonal_sum (as_diagonals (Diagonals [[1, 1, 1]])) (as_offsets (One_offset 0))"
    by blast
  from fits_square_size [OF n(2), of "[1, 1, 1]" 0] have "n = 3"
    by (simp add: as_diagonals_def as_offsets_def)
  with n(1) have sh: "m_shape m = (3, 3)" by simp
  have en: "m_entry m i j = (if i = j then 1 else 0)" if "0 \<le> i" "i < 3" "0 \<le> j" "j < 3" for i j
    using that nth_ones [of i]
    by (auto simp add: n(3) diagonal_sum_def as_diagonals_def as_offsets_def)
  from m sh en show ?thesis by blast
qed

text \<open>
  C8.  With the shape omitted, a backend of \<open>diag\<close> that returns a matrix returns
  a square one whose size is the smallest that fits all the diagonals exactly,
  with the diagonals of equal offset summed, and it does return one whenever
  some square fits; \<open>diag(diagonals=[[1,1,1]], offsets=0)\<close> is the 3 by 3 matrix
  with 1 on the main diagonal.
\<close>

theorem diag_default_shape:
  "(\<forall>diagonals offsets t m.
      diag diagonals offsets None t = Inr m \<longrightarrow>
      (\<exists>n. m_shape m = (int n, int n)
         \<and> fits (int n, int n) (as_diagonals diagonals) (as_offsets offsets)
         \<and> (\<forall>k<n. \<not> fits (int k, int k) (as_diagonals diagonals) (as_offsets offsets))
         \<and> m_entry m = diagonal_sum (as_diagonals diagonals) (as_offsets offsets)))
   \<and> (\<forall>diagonals offsets t n.
      t \<noteq> COO_t \<and> fits (int n, int n) (as_diagonals diagonals) (as_offsets offsets) \<longrightarrow>
      (\<exists>m. diag diagonals offsets None t = Inr m))
   \<and> (\<forall>t. t \<noteq> COO_t \<longrightarrow>
      (\<exists>m. diag (Diagonals [[1, 1, 1]]) (One_offset 0) None t = Inr m
         \<and> m_shape m = (3, 3)
         \<and> (\<forall>i j. 0 \<le> i \<and> i < 3 \<and> 0 \<le> j \<and> j < 3 \<longrightarrow>
               m_entry m i j = (if i = j then 1 else 0))))"
proof (intro conjI allI impI)
  fix diagonals offsets t m
  assume "diag diagonals offsets None t = Inr m"
  from diag_None_Inr [OF this]
  show "\<exists>n. m_shape m = (int n, int n)
         \<and> fits (int n, int n) (as_diagonals diagonals) (as_offsets offsets)
         \<and> (\<forall>k<n. \<not> fits (int k, int k) (as_diagonals diagonals) (as_offsets offsets))
         \<and> m_entry m = diagonal_sum (as_diagonals diagonals) (as_offsets offsets)"
    by blast
next
  fix diagonals offsets t and n :: nat
  assume "t \<noteq> COO_t \<and> fits (int n, int n) (as_diagonals diagonals) (as_offsets offsets)"
  then show "\<exists>m. diag diagonals offsets None t = Inr m"
    using diag_None_total by blast
next
  fix t :: dtype
  assume "t \<noteq> COO_t"
  then show "\<exists>m. diag (Diagonals [[1, 1, 1]]) (One_offset 0) None t = Inr m
         \<and> m_shape m = (3, 3)
         \<and> (\<forall>i j. 0 \<le> i \<and> i < 3 \<and> 0 \<le> j \<and> j < 3 \<longrightarrow>
               m_entry m i j = (if i = j then 1 else 0))"
    by (rule diag_ones)
qed

theorem diag_default_shape_witness:
  "(\<exists>m. diag (Diagonals [[1, 1, 1], [2, 2], [5, 5]]) (Offsets [0, 1, 1]) None Dia_t = Inr m
      \<and> m_shape m = (3, 3) \<and> m_entry m 0 1 = 7 \<and> m_entry m 1 1 = 1 \<and> m_entry m 2 0 = 0)
   \<and> (\<exists>m. diag (Diagonals [[1, 1, 1]]) (One_offset 0) None Dense_t = Inr m
      \<and> m_shape m = (3, 3) \<and> m_entry m 0 0 = 1 \<and> m_entry m 0 1 = 0 \<and> m_entry m 2 2 = 1)"
proof -
  let ?d = "Diagonals [[1, 1, 1], [2, 2], [5, 5]]" and ?o = "Offsets [0, 1, 1]"
  have f: "fits (int 3, int 3) (as_diagonals ?d) (as_offsets ?o)"
    by (simp add: fits_def as_diagonals_def as_offsets_def diagonal_length_def)
  from diag_default_shape f obtain m where m: "diag ?d ?o None Dia_t = Inr m"
    by blast
  with diag_default_shape obtain n where n: "m_shape m = (int n, int n)"
    "fits (int n, int n) (as_diagonals ?d) (as_offsets ?o)"
    "m_entry m = diagonal_sum (as_diagonals ?d) (as_offsets ?o)"
    by blast
  from fits_square_size [OF n(2), of "[1, 1, 1]" 0] have "n = 3"
    by (simp add: as_diagonals_def as_offsets_def)
  with n(1) have "m_shape m = (3, 3)" by simp
  moreover have "m_entry m 0 1 = 7" "m_entry m 1 1 = 1" "m_entry m 2 0 = 0"
    by (simp_all add: n(3) diagonal_sum_def as_diagonals_def as_offsets_def)
  ultimately have first: "\<exists>m. diag ?d ?o None Dia_t = Inr m
      \<and> m_shape m = (3, 3) \<and> m_entry m 0 1 = 7 \<and> m_entry m 1 1 = 1 \<and> m_entry m 2 0 = 0"
    using m by blast
  have "Dense_t \<noteq> COO_t" by simp
  with diag_default_shape obtain m' where m':
    "diag (Diagonals [[1, 1, 1]]) (One_offset 0) None Dense_t = Inr m'" "m_shape m' = (3, 3)"
    "\<forall>i j. 0 \<le> i \<and> i < 3 \<and> 0 \<le> j \<and> j < 3 \<longrightarrow> m_entry m' i j = (if i = j then 1 else 0)"
    by blast
  from m'(3) have "m_entry m' 0 0 = 1" "m_entry m' 0 1 = 0" "m_entry m' 2 2 = 1"
    by simp_all
  with m'(1,2) first show ?thesis by blast
qed

end
